theory Spec2Isabelle
  imports Main "HOL-Library.AList" "HOL-Library.Sublist"
begin

section \<open>The feed reader module (nxus-feedreader)\<close>

text \<open>
  A shallow embedding of the class \<^verbatim>\<open>FeedReader\<close>: the feed and handler registries
  (\<^verbatim>\<open>feed\<close>, \<^verbatim>\<open>unfeed\<close>, \<^verbatim>\<open>process\<close>), the stage routing (\<^verbatim>\<open>_callOrQueue\<close>), the
  fetch stages (\<^verbatim>\<open>fetch\<close>, \<^verbatim>\<open>_fetch\<close>, \<^verbatim>\<open>_fetchFeed\<close>), the per-fetch parsing context
  (\<^verbatim>\<open>_createParser\<close> and its four event handlers) and the item stage
  (\<^verbatim>\<open>_processItem\<close>). A private method \<^verbatim>\<open>_name\<close> of the source is written
  \<open>priv_name\<close>, since an Isabelle name cannot start with an underscore.

  The libraries the class calls (the HTTP client, the stream parser, the worker queue,
  the storage model) are not part of the module. Their inputs to the module are
  arguments of the model: the events they deliver, the record a lookup returns, the
  time a record is written.
\<close>

subsection \<open>JavaScript values\<close>

text \<open>
  The values a feed descriptor holds and an identifier can be. \<open>prop_key\<close> is the
  conversion to a property key that \<^verbatim>\<open>obj[v]\<close> applies, \<open>truthy\<close> the test of
  \<^verbatim>\<open>if (v)\<close>.
\<close>

datatype jsval = JUndefined | JNull | JBool bool | JStr string

fun prop_key :: "jsval \<Rightarrow> string" where
  "prop_key JUndefined = ''undefined''"
| "prop_key JNull = ''null''"
| "prop_key (JBool b) = (if b then ''true'' else ''false'')"
| "prop_key (JStr s) = s"

fun truthy :: "jsval \<Rightarrow> bool" where
  "truthy JUndefined = False"
| "truthy JNull = False"
| "truthy (JBool b) = b"
| "truthy (JStr s) = (s \<noteq> [])"

text \<open>
  A timestamp slot (\<^verbatim>\<open>meta.date\<close>, \<^verbatim>\<open>item.date\<close>, \<^verbatim>\<open>updatedAt\<close>) holds a \<^verbatim>\<open>Date\<close>,
  given by its time value in milliseconds, or \<^verbatim>\<open>null\<close> or \<^verbatim>\<open>undefined\<close>. A \<^verbatim>\<open>Date\<close>
  object is truthy whatever its time value. \<^verbatim>\<open>a >= b\<close> converts both sides to
  numbers (\<^verbatim>\<open>null\<close> to 0, \<^verbatim>\<open>undefined\<close> to NaN, written \<open>None\<close>) and is false
  as soon as one side is NaN. Other contents of such a slot (an invalid \<^verbatim>\<open>Date\<close>, a
  date that the storage layer hands back as a string) are outside the model.
\<close>

datatype jsdate = DUndefined | DNull | Date int

fun date_truthy :: "jsdate \<Rightarrow> bool" where
  "date_truthy (Date t) = True"
| "date_truthy DNull = False"
| "date_truthy DUndefined = False"

fun to_number :: "jsdate \<Rightarrow> int option" where
  "to_number (Date t) = Some t"
| "to_number DNull = Some 0"
| "to_number DUndefined = None"

definition js_ge :: "jsdate \<Rightarrow> jsdate \<Rightarrow> bool" where
  "js_ge a b =
     (case to_number a of
        None \<Rightarrow> False
      | Some x \<Rightarrow> (case to_number b of None \<Rightarrow> False | Some y \<Rightarrow> y \<le> x))"

datatype error = TypeError | Error string

subsection \<open>Data model\<close>

text \<open>
  A feed descriptor is the object \<^verbatim>\<open>Object.assign({url, ident}, options)\<close>: a map from
  property names to values. \<^verbatim>\<open>this._feeds\<close> keeps the descriptors in insertion order,
  the order in which \<^verbatim>\<open>Object.values\<close> lists keys that are not written like array
  indices (it lists those first, in ascending order; no property below depends on
  the order). \<^verbatim>\<open>this._processors\<close> maps a key to its list of handlers. A handler is
  any value of type \<open>'h\<close>; what calling it does is a parameter of
  \<open>priv_processItem\<close>. Both objects are modelled by their own properties: an ident
  that names a member every object inherits (\<^verbatim>\<open>constructor\<close>, \<^verbatim>\<open>toString\<close>,
  \<^verbatim>\<open>__proto__\<close>, ...) is outside the model. On such an ident the source finds the
  inherited member where the model finds nothing: \<^verbatim>\<open>process\<close> then raises a TypeError
  at \<^verbatim>\<open>push\<close>, and \<^verbatim>\<open>_fetch\<close> passes the member on as if it were a descriptor.
\<close>

type_synonym descriptor = "string \<rightharpoonup> jsval"

record config =
  interval :: int
  enableQueues :: bool
  enableReadTracking :: bool

record 'h feedreader =
  feeds :: "(string \<times> descriptor) list"
  processors :: "string \<rightharpoonup> 'h list"

record feedmeta =
  meta_date :: jsdate

record item =
  item_guid :: string
  item_date :: jsdate

text \<open>The model \<^verbatim>\<open>feedreader-feedread\<close>: one record per URL, with the timestamp the
  storage layer keeps of its last write.\<close>

record feedread =
  fr_url :: jsval
  fr_meta :: "feedmeta option"
  updatedAt :: jsdate

definition defaultConfig :: config where
  "defaultConfig = \<lparr>interval = 0, enableQueues = False, enableReadTracking = True\<rparr>"

definition constructor :: "'h feedreader" where
  "constructor = \<lparr>feeds = [], processors = Map.empty\<rparr>"

subsection \<open>Feed registry and handler registry\<close>

text \<open>\<^verbatim>\<open>this._feeds[ident] = Object.assign({url, ident}, options)\<close>: the properties of
  \<open>options\<close> are copied last.\<close>

definition feed :: "string \<Rightarrow> string \<Rightarrow> descriptor \<Rightarrow> 'h feedreader \<Rightarrow> 'h feedreader" where
  "feed ident url options fr =
     fr\<lparr>feeds := AList.update ident
            ([''url'' \<mapsto> JStr url, ''ident'' \<mapsto> JStr ident] ++ options) (feeds fr)\<rparr>"

definition unfeed :: "string \<Rightarrow> 'h feedreader \<Rightarrow> 'h feedreader" where
  "unfeed ident fr = fr\<lparr>feeds := AList.delete ident (feeds fr)\<rparr>"

text \<open>
  \<^verbatim>\<open>process(ident, handler=null)\<close> is called as \<^verbatim>\<open>process(handler)\<close> or as
  \<^verbatim>\<open>process(ident, handler)\<close>. In the first form the source moves its only argument
  to \<open>handler\<close> and sets \<open>ident\<close> to \<^verbatim>\<open>null\<close>, so the list is filed under the
  property key \<^verbatim>\<open>"null"\<close>. The first form is \<open>process None h\<close> here.
\<close>

definition wildcard :: string where
  "wildcard = prop_key JNull"

definition process :: "string option \<Rightarrow> 'h \<Rightarrow> 'h feedreader \<Rightarrow> 'h feedreader" where
  "process ident handler fr =
     (let key = (case ident of None \<Rightarrow> wildcard | Some i \<Rightarrow> i);
          ps = (case processors fr key of None \<Rightarrow> [] | Some hs \<Rightarrow> hs)
      in fr\<lparr>processors := (processors fr)(key \<mapsto> ps @ [handler])\<rparr>)"

subsection \<open>The item stage\<close>

text \<open>
  \<^verbatim>\<open>for (let p of processors) { await p(item, ident) }\<close>. Calling a handler and
  awaiting what it returns has one of three outcomes: it completes, it throws or its
  promise rejects, or its promise never settles. Each outcome leaves the world of the
  handlers (type \<open>'w\<close>) in a new state. The loop goes on after the first outcome only.
  The result is the list of the handlers invoked, the state of the promise that
  \<^verbatim>\<open>_processItem\<close> returns, and the world.
\<close>

datatype 'w called = Completed 'w | Failed error 'w | Stalled 'w

datatype settled = Pending | Resolved | Rejected error

type_synonym payload = "item \<times> jsval"

fun await_each ::
  "('h \<Rightarrow> item \<Rightarrow> jsval \<Rightarrow> 'w \<Rightarrow> 'w called) \<Rightarrow> item \<Rightarrow> jsval \<Rightarrow> 'h list \<Rightarrow> 'h list \<Rightarrow> 'w
     \<Rightarrow> 'h list \<times> settled \<times> 'w" where
  "await_each call it ident [] invoked w = (invoked, Resolved, w)"
| "await_each call it ident (p # ps) invoked w =
     (case call p it ident w of
        Completed w' \<Rightarrow> await_each call it ident ps (invoked @ [p]) w'
      | Failed e w' \<Rightarrow> (invoked @ [p], Rejected e, w')
      | Stalled w' \<Rightarrow> (invoked @ [p], Pending, w'))"


definition or_empty :: "'a list option \<Rightarrow> 'a list" where
  "or_empty v = (case v of None \<Rightarrow> [] | Some xs \<Rightarrow> xs)"

definition handlersFor :: "'h feedreader \<Rightarrow> jsval \<Rightarrow> 'h list" where
  "handlersFor fr ident =
     [] @ or_empty (processors fr wildcard) @ or_empty (processors fr (prop_key ident))"

definition priv_processItem ::
  "('h \<Rightarrow> item \<Rightarrow> jsval \<Rightarrow> 'w \<Rightarrow> 'w called) \<Rightarrow> 'h feedreader \<Rightarrow> payload \<Rightarrow> 'w
     \<Rightarrow> 'h list \<times> settled \<times> 'w" where
  "priv_processItem call fr data w =
     await_each call (fst data) (snd data) (handlersFor fr (snd data)) [] w"

subsection \<open>Stage routing\<close>

text \<open>
  \<^verbatim>\<open>_callOrQueue(action, data)\<close>: with queues enabled the stage is submitted to the
  worker queue as the task \<^verbatim>\<open>feedreader-action\<close>, otherwise the method
  \<^verbatim>\<open>this['_' + action]\<close> runs on the data. The method is the argument \<open>method\<close>.
  The result records which of the two happened: the task's name and data, or the
  data the method was called on and what the call returned.
\<close>

datatype ('d, 'r) routed = Task string 'd | Ran 'd 'r

definition priv_callOrQueue :: "config \<Rightarrow> string \<Rightarrow> 'd \<Rightarrow> ('d \<Rightarrow> 'r) \<Rightarrow> ('d, 'r) routed" where
  "priv_callOrQueue cfg action data method =
     (if enableQueues cfg then Task (''feedreader-'' @ action) data else Ran data (method data))"

definition enableQueues_call :: "config \<Rightarrow> config" where
  "enableQueues_call cfg = cfg\<lparr>enableQueues := True\<rparr>"

fun routed_data :: "('d, 'r) routed \<Rightarrow> 'd" where
  "routed_data (Task name d) = d"
| "routed_data (Ran d r) = d"

subsection \<open>The parsing context\<close>

text \<open>
  The environment of one fetch: the configuration, the time the storage layer stamps
  on a record it writes, and whether the parser stream carries a \<^verbatim>\<open>log\<close> member. The
  \<^verbatim>\<open>readable\<close> handler is a \<^verbatim>\<open>function\<close>, so its \<^verbatim>\<open>this\<close> is the parser, and
  \<^verbatim>\<open>this.log.debug(...)\<close> in its skip branch raises a TypeError when the parser has no
  \<^verbatim>\<open>log\<close>. The parser class is not part of the module, so this is a parameter.
\<close>

record env =
  config :: config
  now :: int
  stream_log :: bool

text \<open>
  The state of one fetch: the variables the handlers of \<^verbatim>\<open>_createParser\<close> close over
  (\<open>readTracking\<close>, \<open>lastRead\<close>, \<open>skip\<close>, \<open>meta\<close>, and the arguments \<open>url\<close>
  and \<open>ident\<close>), the promise of \<^verbatim>\<open>_fetchFeed\<close>, the watermark store, the calls of
  \<^verbatim>\<open>_callOrQueue("processItem", {item, ident})\<close> made so far, and whether the response
  is piped into the parser. The method of such a call is \<^verbatim>\<open>this._processItem\<close>, that is
  \<open>priv_processItem\<close> of the reader; what an inline call returns is the promise of
  \<^verbatim>\<open>_processItem\<close>, given as what it does to the world of the handlers it starts in.
\<close>

type_synonym ('h, 'w) processing = "'w \<Rightarrow> 'h list \<times> settled \<times> 'w"

record ('h, 'w) pstate =
  feed_url :: jsval
  feed_ident :: jsval
  readTracking :: bool
  lastRead :: jsdate
  skip :: bool
  meta :: "feedmeta option"
  promise :: settled
  store :: "jsval \<rightharpoonup> feedread"
  trace :: "(payload, ('h, 'w) processing) routed list"
  piped :: bool

definition dispatched :: "('h, 'w) pstate \<Rightarrow> payload list" where
  "dispatched st = map routed_data (trace st)"

text \<open>A promise settles once: \<^verbatim>\<open>resolve\<close> and \<^verbatim>\<open>reject\<close> do nothing on a settled one.\<close>

definition resolve :: "('h, 'w) pstate \<Rightarrow> ('h, 'w) pstate" where
  "resolve st = (if promise st = Pending then st\<lparr>promise := Resolved\<rparr> else st)"

definition reject :: "error \<Rightarrow> ('h, 'w) pstate \<Rightarrow> ('h, 'w) pstate" where
  "reject e st = (if promise st = Pending then st\<lparr>promise := Rejected e\<rparr> else st)"

definition findOne :: "(jsval \<rightharpoonup> feedread) \<Rightarrow> jsval \<Rightarrow> feedread option" where
  "findOne s u = s u"

definition createOrUpdate ::
  "int \<Rightarrow> jsval \<Rightarrow> feedmeta option \<Rightarrow> (jsval \<rightharpoonup> feedread) \<Rightarrow> (jsval \<rightharpoonup> feedread)" where
  "createOrUpdate t u m s = s(u \<mapsto> \<lparr>fr_url = u, fr_meta = m, updatedAt = Date t\<rparr>)"

text \<open>The lookup of \<^verbatim>\<open>lastRead\<close>: \<^verbatim>\<open>last.meta.date\<close> when \<^verbatim>\<open>last.meta\<close> and it are
  truthy, else \<^verbatim>\<open>last.updatedAt\<close>; \<^verbatim>\<open>undefined\<close> without a record or without read
  tracking.\<close>

definition lookup_lastRead :: "bool \<Rightarrow> feedread option \<Rightarrow> jsdate" where
  "lookup_lastRead tracking found =
     (if tracking then
        (case found of
           None \<Rightarrow> DUndefined
         | Some l \<Rightarrow>
             (case fr_meta l of
                None \<Rightarrow> updatedAt l
              | Some m \<Rightarrow> if date_truthy (meta_date m) then meta_date m else updatedAt l))
      else DUndefined)"

definition priv_createParser ::
  "env \<Rightarrow> jsval \<Rightarrow> jsval \<Rightarrow> (jsval \<rightharpoonup> feedread) \<Rightarrow> ('h, 'w) pstate" where
  "priv_createParser e u i s =
     \<lparr>feed_url = u, feed_ident = i,
      readTracking = enableReadTracking (config e),
      lastRead = lookup_lastRead (enableReadTracking (config e)) (findOne s u),
      skip = False, meta = None, promise = Pending, store = s, trace = [],
      piped = False\<rparr>"

definition on_error :: "error \<Rightarrow> ('h, 'w) pstate \<Rightarrow> ('h, 'w) pstate" where
  "on_error err st = reject err st"

text \<open>The \<^verbatim>\<open>end\<close> handler reads \<^verbatim>\<open>this.config.enableReadTracking\<close> again, not the captured
  \<open>readTracking\<close>; the configuration is the same throughout a fetch here. It writes
  the record whatever the state of the promise, then calls \<^verbatim>\<open>resolve\<close>.\<close>

definition on_end :: "env \<Rightarrow> ('h, 'w) pstate \<Rightarrow> ('h, 'w) pstate" where
  "on_end e st =
     resolve (if enableReadTracking (config e)
              then st\<lparr>store := createOrUpdate (now e) (feed_url st) (meta st) (store st)\<rparr>
              else st)"

definition on_meta :: "feedmeta \<Rightarrow> ('h, 'w) pstate \<Rightarrow> ('h, 'w) pstate" where
  "on_meta m st =
     (let st1 = st\<lparr>meta := Some m\<rparr>
      in if date_truthy (lastRead st1) \<and> js_ge (lastRead st1) (meta_date m)
         then st1\<lparr>skip := True\<rparr> else st1)"

text \<open>
  \<^verbatim>\<open>while (item = this.read())\<close> over the items the parser has buffered. The condition
  is the source's: \<^verbatim>\<open>readTracking && !skip && lastRead && item.date >= lastRead\<close>. In
  that branch the item is not dispatched: either the loop continues, or the
  TypeError of \<^verbatim>\<open>this.log.debug\<close> leaves the handler, with the rest of the batch
  unread. Otherwise the item goes to \<^verbatim>\<open>_callOrQueue("processItem", {item, ident})\<close>,
  whose method is the \<^verbatim>\<open>_processItem\<close> of the reader \<open>fr\<close>. The handler returns the
  exception that left it, if any, and the state.
\<close>

definition skip_item :: "('h, 'w) pstate \<Rightarrow> item \<Rightarrow> bool" where
  "skip_item st it =
     (readTracking st \<and> \<not> skip st \<and> date_truthy (lastRead st) \<and> js_ge (item_date it) (lastRead st))"

fun on_readable ::
  "env \<Rightarrow> ('h \<Rightarrow> item \<Rightarrow> jsval \<Rightarrow> 'w \<Rightarrow> 'w called) \<Rightarrow> 'h feedreader \<Rightarrow> item list
     \<Rightarrow> ('h, 'w) pstate \<Rightarrow> error option \<times> ('h, 'w) pstate" where
  "on_readable e call fr [] st = (None, st)"
| "on_readable e call fr (it # its) st =
     (if skip_item st it
      then (if stream_log e then on_readable e call fr its st else (Some TypeError, st))
      else on_readable e call fr its
             (st\<lparr>trace := trace st @
                   [priv_callOrQueue (config e) ''processItem'' (it, feed_ident st)
                      (priv_processItem call fr)]\<rparr>))"

text \<open>
  The events of the parser, and a run of them. The parser calls the \<^verbatim>\<open>readable\<close>
  listener while it handles a part of its input; an exception that leaves the
  listener is caught by the parser stream and emitted as its \<^verbatim>\<open>error\<close> event, whose
  listener is \<^verbatim>\<open>reject\<close>. The events that follow are the parser's: the run goes on.
\<close>

datatype pevent = OnMeta feedmeta | OnReadable "item list" | OnError error | OnEnd

fun parser_emit ::
  "env \<Rightarrow> ('h \<Rightarrow> item \<Rightarrow> jsval \<Rightarrow> 'w \<Rightarrow> 'w called) \<Rightarrow> 'h feedreader \<Rightarrow> pevent
     \<Rightarrow> ('h, 'w) pstate \<Rightarrow> ('h, 'w) pstate" where
  "parser_emit e call fr (OnMeta m) st = on_meta m st"
| "parser_emit e call fr (OnReadable its) st =
     (case on_readable e call fr its st of
        (None, st') \<Rightarrow> st'
      | (Some err, st') \<Rightarrow> on_error err st')"
| "parser_emit e call fr (OnError err) st = on_error err st"
| "parser_emit e call fr OnEnd st = on_end e st"

fun emit_all ::
  "env \<Rightarrow> ('h \<Rightarrow> item \<Rightarrow> jsval \<Rightarrow> 'w \<Rightarrow> 'w called) \<Rightarrow> 'h feedreader \<Rightarrow> pevent list
     \<Rightarrow> ('h, 'w) pstate \<Rightarrow> ('h, 'w) pstate" where
  "emit_all e call fr [] st = st"
| "emit_all e call fr (ev # evs) st = emit_all e call fr evs (parser_emit e call fr ev st)"

fun items_of :: "pevent list \<Rightarrow> item list" where
  "items_of [] = []"
| "items_of (OnReadable its # evs) = its @ items_of evs"
| "items_of (ev # evs) = items_of evs"

subsection \<open>The fetch stages\<close>

text \<open>
  The events of one request: a transport error, the response with its status code,
  and a part of the response body, given by the event the parser emits on it when
  the response is piped into the parser. On a status other than 200 the handler
  emits \<^verbatim>\<open>error\<close> on the request, whose listener is \<^verbatim>\<open>reject\<close>, and returns
  before \<^verbatim>\<open>res.pipe(feedparser)\<close>.
\<close>

datatype revent = ReqError error | Response nat | Body pevent

fun fetch_emit ::
  "env \<Rightarrow> ('h \<Rightarrow> item \<Rightarrow> jsval \<Rightarrow> 'w \<Rightarrow> 'w called) \<Rightarrow> 'h feedreader \<Rightarrow> revent
     \<Rightarrow> ('h, 'w) pstate \<Rightarrow> ('h, 'w) pstate" where
  "fetch_emit e call fr (ReqError err) st = reject err st"
| "fetch_emit e call fr (Response code) st =
     (if code \<noteq> 200 then reject (Error ''Bad status code'') st else st\<lparr>piped := True\<rparr>)"
| "fetch_emit e call fr (Body ev) st = (if piped st then parser_emit e call fr ev st else st)"

fun fetch_all ::
  "env \<Rightarrow> ('h \<Rightarrow> item \<Rightarrow> jsval \<Rightarrow> 'w \<Rightarrow> 'w called) \<Rightarrow> 'h feedreader \<Rightarrow> revent list
     \<Rightarrow> ('h, 'w) pstate \<Rightarrow> ('h, 'w) pstate" where
  "fetch_all e call fr [] st = st"
| "fetch_all e call fr (ev # evs) st = fetch_all e call fr evs (fetch_emit e call fr ev st)"

text \<open>
  \<^verbatim>\<open>_fetchFeed({url, ident})\<close> destructures its argument on entry: on \<^verbatim>\<open>undefined\<close>
  that is a TypeError, before the promise exists. \<open>net\<close> gives the events of the
  request to a URL.
\<close>

definition field :: "descriptor \<Rightarrow> string \<Rightarrow> jsval" where
  "field d k = (case d k of None \<Rightarrow> JUndefined | Some v \<Rightarrow> v)"

definition priv_fetchFeed ::
  "env \<Rightarrow> ('h \<Rightarrow> item \<Rightarrow> jsval \<Rightarrow> 'w \<Rightarrow> 'w called) \<Rightarrow> 'h feedreader \<Rightarrow> (jsval \<Rightarrow> revent list)
     \<Rightarrow> (jsval \<rightharpoonup> feedread) \<Rightarrow> descriptor option \<Rightarrow> error + ('h, 'w) pstate" where
  "priv_fetchFeed e call fr net s desc =
     (case desc of
        None \<Rightarrow> Inl TypeError
      | Some d \<Rightarrow>
          Inr (fetch_all e call fr (net (field d ''url''))
                 (priv_createParser e (field d ''url'') (field d ''ident'') s)))"

text \<open>
  \<^verbatim>\<open>_fetch({ident})\<close>: one stage call for a truthy \<open>ident\<close>, with whatever
  \<^verbatim>\<open>this._feeds[ident]\<close> holds, else one for every registered feed. \<^verbatim>\<open>_fetch\<close> is not
  an \<^verbatim>\<open>async\<close> function: an exception of an inline stage call leaves it as an
  exception. Every pipeline reads the store as it was when the fetch began; how
  pipelines of several feeds interleave is not modelled. The lookup is that of the
  registered feeds: for an ident that names a member every object inherits the
  source finds that member instead of \<^verbatim>\<open>undefined\<close>, which is outside the model.
\<close>

type_synonym ('h, 'w) fetched = "(descriptor option, error + ('h, 'w) pstate) routed"

fun thrown :: "('h, 'w) fetched \<Rightarrow> error option" where
  "thrown (Ran d (Inl err)) = Some err"
| "thrown (Ran d (Inr st)) = None"
| "thrown (Task name d) = None"

definition priv_fetch ::
  "env \<Rightarrow> ('h \<Rightarrow> item \<Rightarrow> jsval \<Rightarrow> 'w \<Rightarrow> 'w called) \<Rightarrow> (jsval \<Rightarrow> revent list)
     \<Rightarrow> (jsval \<rightharpoonup> feedread) \<Rightarrow> 'h feedreader \<Rightarrow> jsval \<Rightarrow> error + ('h, 'w) fetched list" where
  "priv_fetch e call net s fr ident =
     (let stage = (\<lambda>d. priv_callOrQueue (config e) ''fetchFeed'' d (priv_fetchFeed e call fr net s))
      in if truthy ident
         then (let r = stage (map_of (feeds fr) (prop_key ident))
               in case thrown r of Some err \<Rightarrow> Inl err | None \<Rightarrow> Inr [r])
         else Inr (map (\<lambda>d. stage (Some d)) (map snd (feeds fr))))"

definition fetch ::
  "env \<Rightarrow> ('h \<Rightarrow> item \<Rightarrow> jsval \<Rightarrow> 'w \<Rightarrow> 'w called) \<Rightarrow> (jsval \<Rightarrow> revent list)
     \<Rightarrow> (jsval \<rightharpoonup> feedread) \<Rightarrow> 'h feedreader \<Rightarrow> jsval
     \<Rightarrow> (jsval, error + ('h, 'w) fetched list) routed" where
  "fetch e call net s fr ident =
     priv_callOrQueue (config e) ''fetch'' ident (priv_fetch e call net s fr)"

subsection \<open>The specification's wording of the read-tracking rule\<close>




section \<open>Properties of the item stage and the registries\<close>

subsection \<open>The loop over the handlers\<close>



lemma await_each_stops:
  "await_each call it i hs acc w = (acc', r, w') \<Longrightarrow> r \<noteq> Resolved \<Longrightarrow>
     \<exists>ran p w0 w1. acc' = acc @ ran @ [p] \<and>
        (call p it i w0 = Stalled w1 \<and> r = Pending \<or> (\<exists>err. call p it i w0 = Failed err w1 \<and> r = Rejected err)) \<and> w' = w1"
proof (induction hs arbitrary: acc w)
  case Nil
  then show ?case by auto
next
  case (Cons p ps)
  show ?case
  proof (cases "call p it i w")
    case (Completed w1)
    with Cons.prems have "await_each call it i ps (acc @ [p]) w1 = (acc', r, w')" by simp
    from Cons.IH[OF this Cons.prems(2)] obtain ran q w0 w2 where
      "acc' = (acc @ [p]) @ ran @ [q]"
      "(call q it i w0 = Stalled w2 \<and> r = Pending \<or> (\<exists>err. call q it i w0 = Failed err w2 \<and> r = Rejected err)) \<and> w' = w2"
      by blast
    then show ?thesis by (intro exI[of _ "p # ran"] exI[of _ q] exI[of _ w0] exI[of _ w2]) simp
  next
    case (Failed err w1)
    with Cons.prems show ?thesis
      by (intro exI[of _ "[]"] exI[of _ p] exI[of _ w] exI[of _ w1]) auto
  next
    case (Stalled w1)
    with Cons.prems show ?thesis
      by (intro exI[of _ "[]"] exI[of _ p] exI[of _ w] exI[of _ w1]) auto
  qed
qed

lemma await_each_append:
  "await_each call it i (xs @ ys) acc w =
     (case await_each call it i xs acc w of
        (acc', Resolved, w') \<Rightarrow> await_each call it i ys acc' w'
      | other \<Rightarrow> other)"
  by (induction xs arbitrary: acc w) (auto split: called.splits)







subsection \<open>Registering and removing feeds\<close>

text \<open>
  C9. The descriptor stored by \<^verbatim>\<open>feed(ident, url, options)\<close> under \<open>ident\<close> is the
  object with the two arguments overwritten by the properties of \<open>options\<close>: its
  \<^verbatim>\<open>url\<close> and \<^verbatim>\<open>ident\<close> fields are those of \<open>options\<close> whenever \<open>options\<close> has
  such a key, and the arguments otherwise.
\<close>

theorem feed_options_last:
  "map_of (feeds (feed ident url options fr)) ident =
      Some ([''url'' \<mapsto> JStr url, ''ident'' \<mapsto> JStr ident] ++ options) \<and>
   (\<forall>v. options ''url'' = Some v \<longrightarrow>
      field (the (map_of (feeds (feed ident url options fr)) ident)) ''url'' = v) \<and>
   (\<forall>v. options ''ident'' = Some v \<longrightarrow>
      field (the (map_of (feeds (feed ident url options fr)) ident)) ''ident'' = v) \<and>
   (options ''url'' = None \<longrightarrow>
      field (the (map_of (feeds (feed ident url options fr)) ident)) ''url'' = JStr url) \<and>
   (options ''ident'' = None \<longrightarrow>
      field (the (map_of (feeds (feed ident url options fr)) ident)) ''ident'' = JStr ident)"
  by (simp add: feed_def update_conv' field_def map_add_def)

text \<open>C9, witness: options that carry both keys.\<close>

theorem feed_options_last_witness:
  "[''url'' \<mapsto> JStr ''http://b'', ''ident'' \<mapsto> JStr ''other''] ''url'' = Some (JStr ''http://b'') \<and>
   [''url'' \<mapsto> JStr ''http://b'', ''ident'' \<mapsto> JStr ''other''] ''ident'' = Some (JStr ''other'') \<and>
   field (the (map_of (feeds (feed ''news'' ''http://a''
       [''url'' \<mapsto> JStr ''http://b'', ''ident'' \<mapsto> JStr ''other''] (constructor :: nat feedreader))) ''news''))
     ''url'' = JStr ''http://b'' \<and>
   field (the (map_of (feeds (feed ''news'' ''http://a''
       [''url'' \<mapsto> JStr ''http://b'', ''ident'' \<mapsto> JStr ''other''] (constructor :: nat feedreader))) ''news''))
     ''ident'' = JStr ''other''"
  using feed_options_last
    [of "''news''" "''http://a''" "[''url'' \<mapsto> JStr ''http://b'', ''ident'' \<mapsto> JStr ''other'']"
        "constructor :: nat feedreader"]
  by (simp add: field_def)

text \<open>
  C10. \<^verbatim>\<open>unfeed(ident)\<close> removes the descriptor of \<open>ident\<close> and nothing else: the
  handler registry is the same, so the handlers looked up for any ident are the
  same, and after the feed is registered again \<^verbatim>\<open>_processItem\<close> does on every
  payload what it did before.
\<close>

theorem unfeed_keeps_handlers:
  "processors (unfeed ident fr) = processors fr \<and>
   map_of (feeds (unfeed ident fr)) = (map_of (feeds fr))(ident := None) \<and>
   handlersFor (unfeed ident fr) i = handlersFor fr i \<and>
   handlersFor (feed ident url options (unfeed ident fr)) i = handlersFor fr i \<and>
   priv_processItem call (feed ident url options (unfeed ident fr)) d w = priv_processItem call fr d w"
  by (simp add: unfeed_def feed_def handlersFor_def priv_processItem_def delete_conv')

section \<open>Properties of the parsing context\<close>

subsection \<open>Runs in which no item can be skipped\<close>

text \<open>
  The handlers never change \<open>readTracking\<close>, \<open>lastRead\<close>, \<open>url\<close> or \<open>ident\<close>.
  When read tracking is off, or \<open>lastRead\<close> is not truthy, the condition of the skip
  branch is false for every item: the \<^verbatim>\<open>readable\<close> handler appends one call of
  \<^verbatim>\<open>_callOrQueue("processItem", ...)\<close> per item, in the order read, and raises nothing.
\<close>

lemma routed_data_callOrQueue: "routed_data (priv_callOrQueue c a d m) = d"
  by (simp add: priv_callOrQueue_def)

lemma callOrQueue_processItem:
  "priv_callOrQueue c ''processItem'' d m =
     (if enableQueues c then Task ''feedreader-processItem'' d else Ran d (m d))"
  by (simp add: priv_callOrQueue_def)

lemma on_readable_frame:
  "feed_url (snd (on_readable e call fr its st)) = feed_url st \<and>
   feed_ident (snd (on_readable e call fr its st)) = feed_ident st \<and>
   readTracking (snd (on_readable e call fr its st)) = readTracking st \<and>
   lastRead (snd (on_readable e call fr its st)) = lastRead st \<and>
   skip (snd (on_readable e call fr its st)) = skip st \<and>
   meta (snd (on_readable e call fr its st)) = meta st \<and>
   promise (snd (on_readable e call fr its st)) = promise st \<and>
   store (snd (on_readable e call fr its st)) = store st \<and>
   piped (snd (on_readable e call fr its st)) = piped st"
  by (induction its arbitrary: st) (simp_all add: skip_item_def)

lemma on_readable_noskip:
  "\<not> readTracking st \<or> \<not> date_truthy (lastRead st) \<Longrightarrow>
     on_readable e call fr its st =
       (None, st\<lparr>trace := trace st @
            map (\<lambda>it. priv_callOrQueue (config e) ''processItem'' (it, feed_ident st)
                        (priv_processItem call fr)) its\<rparr>)"
proof (induction its arbitrary: st)
  case Nil
  then show ?case by simp
next
  case (Cons it its)
  let ?st = "st\<lparr>trace := trace st @
                 [priv_callOrQueue (config e) ''processItem'' (it, feed_ident st)
                    (priv_processItem call fr)]\<rparr>"
  from Cons.prems have ns: "\<not> skip_item st it" by (auto simp: skip_item_def)
  from Cons.prems have "\<not> readTracking ?st \<or> \<not> date_truthy (lastRead ?st)" by simp
  from Cons.IH[OF this] ns show ?case by simp
qed

lemma parser_emit_frame:
  "feed_url (parser_emit e call fr ev st) = feed_url st \<and>
   feed_ident (parser_emit e call fr ev st) = feed_ident st \<and>
   readTracking (parser_emit e call fr ev st) = readTracking st \<and>
   lastRead (parser_emit e call fr ev st) = lastRead st \<and>
   piped (parser_emit e call fr ev st) = piped st"
proof (cases ev)
  case (OnReadable its)
  obtain r st' where res: "on_readable e call fr its st = (r, st')"
    by (cases "on_readable e call fr its st") auto
  with on_readable_frame[of e call fr its st] OnReadable show ?thesis
    by (cases r) (simp_all add: on_error_def reject_def)
qed (simp_all add: on_meta_def on_error_def on_end_def reject_def resolve_def Let_def)

lemma parser_emit_noskip:
  assumes "\<not> readTracking st \<or> \<not> date_truthy (lastRead st)"
  shows "trace (parser_emit e call fr ev st) =
           trace st @ map (\<lambda>it. priv_callOrQueue (config e) ''processItem'' (it, feed_ident st)
                                   (priv_processItem call fr)) (items_of [ev])"
proof (cases ev)
  case (OnReadable its)
  then show ?thesis
    using on_readable_noskip[OF assms, of e call fr its] by simp
qed (simp_all add: on_meta_def on_error_def on_end_def reject_def resolve_def Let_def)

lemma items_of_Cons: "items_of (ev # evs) = items_of [ev] @ items_of evs"
  by (cases ev) simp_all

lemma emit_all_noskip:
  "\<not> readTracking st \<or> \<not> date_truthy (lastRead st) \<Longrightarrow>
     trace (emit_all e call fr evs st) =
       trace st @ map (\<lambda>it. priv_callOrQueue (config e) ''processItem'' (it, feed_ident st)
                               (priv_processItem call fr)) (items_of evs)"
proof (induction evs arbitrary: st)
  case Nil
  then show ?case by simp
next
  case (Cons ev evs)
  let ?st = "parser_emit e call fr ev st"
  have a: "\<not> readTracking ?st \<or> \<not> date_truthy (lastRead ?st)"
    using Cons.prems by (simp add: parser_emit_frame)
  from Cons.IH[OF a] parser_emit_noskip[OF Cons.prems, of e call fr ev] show ?case
    by (simp add: parser_emit_frame items_of_Cons[of ev evs])
qed

lemma emit_all_append:
  "emit_all e call fr (xs @ ys) st = emit_all e call fr ys (emit_all e call fr xs st)"
  by (induction xs arbitrary: st) simp_all

lemma emit_all_frame:
  "feed_url (emit_all e call fr evs st) = feed_url st \<and>
   feed_ident (emit_all e call fr evs st) = feed_ident st \<and>
   readTracking (emit_all e call fr evs st) = readTracking st \<and>
   lastRead (emit_all e call fr evs st) = lastRead st \<and>
   piped (emit_all e call fr evs st) = piped st"
  by (induction evs arbitrary: st) (simp_all add: parser_emit_frame)

text \<open>
  C4. With read tracking disabled, a run of parser events makes exactly one call
  of \<^verbatim>\<open>_callOrQueue("processItem", {item, ident})\<close> for every item the parser emitted,
  in emission order and with the ident of the fetch: with queues enabled the task
  \<^verbatim>\<open>feedreader-processItem\<close> is submitted with that payload, otherwise
  \<^verbatim>\<open>_processItem\<close> of the reader is called on it. Nothing else is dispatched.
\<close>

theorem tracking_disabled_dispatches_all:
  fixes call :: "'h \<Rightarrow> item \<Rightarrow> jsval \<Rightarrow> 'w \<Rightarrow> 'w called"
  shows "\<not> enableReadTracking (config e) \<Longrightarrow>
     trace (emit_all e call fr evs (priv_createParser e u i s)) =
       map (\<lambda>it. if enableQueues (config e) then Task ''feedreader-processItem'' (it, i)
                  else Ran (it, i) (priv_processItem call fr (it, i))) (items_of evs) \<and>
     dispatched (emit_all e call fr evs (priv_createParser e u i s)) =
       map (\<lambda>it. (it, i)) (items_of evs)"
proof -
  assume t: "\<not> enableReadTracking (config e)"
  let ?st0 = "priv_createParser e u i s :: ('h, 'w) pstate"
  have ns: "\<not> readTracking ?st0 \<or> \<not> date_truthy (lastRead ?st0)"
    using t by (simp add: priv_createParser_def)
  have tr: "trace (emit_all e call fr evs ?st0) =
       map (\<lambda>it. if enableQueues (config e) then Task ''feedreader-processItem'' (it, i)
                  else Ran (it, i) (priv_processItem call fr (it, i))) (items_of evs)"
    using emit_all_noskip[OF ns, of e call fr evs]
    by (simp add: priv_createParser_def callOrQueue_processItem)
  then have "dispatched (emit_all e call fr evs ?st0) = map (\<lambda>it. (it, i)) (items_of evs)"
    by (simp add: dispatched_def comp_def)
  with tr show ?thesis by simp
qed

text \<open>C4, witness: three items in two \<^verbatim>\<open>readable\<close> events, a watermark in the store
  that read tracking would have used; once with the stages run inline, once with
  queues enabled.\<close>

theorem tracking_disabled_dispatches_all_witness:
  "\<not> enableReadTracking (config \<lparr>config = defaultConfig\<lparr>enableReadTracking := False\<rparr>, now = 300, stream_log = False\<rparr>) \<and>
   trace (emit_all \<lparr>config = defaultConfig\<lparr>enableReadTracking := False\<rparr>, now = 300, stream_log = False\<rparr>
      (\<lambda>h it i w. Completed (w @ [h])) (process None (7::nat) constructor)
      [OnMeta \<lparr>meta_date = Date 100\<rparr>,
       OnReadable [\<lparr>item_guid = ''a'', item_date = Date 50\<rparr>, \<lparr>item_guid = ''b'', item_date = Date 150\<rparr>],
       OnReadable [\<lparr>item_guid = ''c'', item_date = DNull\<rparr>], OnEnd]
      (priv_createParser \<lparr>config = defaultConfig\<lparr>enableReadTracking := False\<rparr>, now = 300, stream_log = False\<rparr>
         (JStr ''local-path'') (JStr ''test'')
         [JStr ''local-path'' \<mapsto> \<lparr>fr_url = JStr ''local-path'', fr_meta = Some \<lparr>meta_date = Date 100\<rparr>,
                                  updatedAt = Date 120\<rparr>]))
     = [Ran (\<lparr>item_guid = ''a'', item_date = Date 50\<rparr>, JStr ''test'')
          (priv_processItem (\<lambda>h it i w. Completed (w @ [h])) (process None (7::nat) constructor)
             (\<lparr>item_guid = ''a'', item_date = Date 50\<rparr>, JStr ''test'')),
        Ran (\<lparr>item_guid = ''b'', item_date = Date 150\<rparr>, JStr ''test'')
          (priv_processItem (\<lambda>h it i w. Completed (w @ [h])) (process None (7::nat) constructor)
             (\<lparr>item_guid = ''b'', item_date = Date 150\<rparr>, JStr ''test'')),
        Ran (\<lparr>item_guid = ''c'', item_date = DNull\<rparr>, JStr ''test'')
          (priv_processItem (\<lambda>h it i w. Completed (w @ [h])) (process None (7::nat) constructor)
             (\<lparr>item_guid = ''c'', item_date = DNull\<rparr>, JStr ''test''))] \<and>
   trace (emit_all
      \<lparr>config = defaultConfig\<lparr>enableReadTracking := False, enableQueues := True\<rparr>, now = 300, stream_log = False\<rparr>
      (\<lambda>h it i w. Completed (w @ [h])) (process None (7::nat) constructor)
      [OnReadable [\<lparr>item_guid = ''a'', item_date = Date 50\<rparr>]]
      (priv_createParser
         \<lparr>config = defaultConfig\<lparr>enableReadTracking := False, enableQueues := True\<rparr>, now = 300, stream_log = False\<rparr>
         (JStr ''local-path'') (JStr ''test'') Map.empty))
     = [Task ''feedreader-processItem'' (\<lparr>item_guid = ''a'', item_date = Date 50\<rparr>, JStr ''test'')]"
  using tracking_disabled_dispatches_all
    [of "\<lparr>config = defaultConfig\<lparr>enableReadTracking := False\<rparr>, now = 300, stream_log = False\<rparr>"
        "\<lambda>h it i w. Completed (w @ [h])" "process None (7::nat) constructor"
        "[OnMeta \<lparr>meta_date = Date 100\<rparr>,
          OnReadable [\<lparr>item_guid = ''a'', item_date = Date 50\<rparr>, \<lparr>item_guid = ''b'', item_date = Date 150\<rparr>],
          OnReadable [\<lparr>item_guid = ''c'', item_date = DNull\<rparr>], OnEnd]"
        "JStr ''local-path''" "JStr ''test''"
        "[JStr ''local-path'' \<mapsto> \<lparr>fr_url = JStr ''local-path'', fr_meta = Some \<lparr>meta_date = Date 100\<rparr>,
                                  updatedAt = Date 120\<rparr>]"]
    tracking_disabled_dispatches_all
    [of "\<lparr>config = defaultConfig\<lparr>enableReadTracking := False, enableQueues := True\<rparr>, now = 300, stream_log = False\<rparr>"
        "\<lambda>h it i w. Completed (w @ [h])" "process None (7::nat) constructor"
        "[OnReadable [\<lparr>item_guid = ''a'', item_date = Date 50\<rparr>]]"
        "JStr ''local-path''" "JStr ''test''" Map.empty]
  by (simp add: defaultConfig_def)

text \<open>
  C5. With read tracking enabled and no watermark record for the URL, \<open>lastRead\<close> is
  \<^verbatim>\<open>undefined\<close>; every item the parser emits is dispatched, in order: one task
  \<^verbatim>\<open>feedreader-processItem\<close> or one call of \<^verbatim>\<open>_processItem\<close> per item, and nothing
  else; and when the stream ends the record of the URL is written with the metadata
  captured so far.
\<close>

theorem no_watermark_dispatches_all:
  fixes call :: "'h \<Rightarrow> item \<Rightarrow> jsval \<Rightarrow> 'w \<Rightarrow> 'w called"
  shows "enableReadTracking (config e) \<Longrightarrow> findOne s u = None \<Longrightarrow>
     lastRead (priv_createParser e u i s :: ('h, 'w) pstate) = DUndefined \<and>
     trace (emit_all e call fr evs (priv_createParser e u i s)) =
       map (\<lambda>it. if enableQueues (config e) then Task ''feedreader-processItem'' (it, i)
                  else Ran (it, i) (priv_processItem call fr (it, i))) (items_of evs) \<and>
     dispatched (emit_all e call fr evs (priv_createParser e u i s)) =
       map (\<lambda>it. (it, i)) (items_of evs) \<and>
     store (emit_all e call fr (evs @ [OnEnd]) (priv_createParser e u i s)) u =
       Some \<lparr>fr_url = u, fr_meta = meta (emit_all e call fr evs (priv_createParser e u i s)),
             updatedAt = Date (now e)\<rparr>"
proof -
  assume t: "enableReadTracking (config e)" and n: "findOne s u = None"
  let ?st0 = "priv_createParser e u i s :: ('h, 'w) pstate"
  have lr: "lastRead ?st0 = DUndefined"
    using t n by (simp add: priv_createParser_def lookup_lastRead_def)
  then have ns: "\<not> readTracking ?st0 \<or> \<not> date_truthy (lastRead ?st0)" by simp
  have tr: "trace (emit_all e call fr evs ?st0) =
       map (\<lambda>it. if enableQueues (config e) then Task ''feedreader-processItem'' (it, i)
                  else Ran (it, i) (priv_processItem call fr (it, i))) (items_of evs)"
    using emit_all_noskip[OF ns, of e call fr evs]
    by (simp add: priv_createParser_def callOrQueue_processItem)
  then have d: "dispatched (emit_all e call fr evs ?st0) = map (\<lambda>it. (it, i)) (items_of evs)"
    by (simp add: dispatched_def comp_def)
  have url: "feed_url (emit_all e call fr evs ?st0) = u"
    by (simp add: emit_all_frame priv_createParser_def)
  have "emit_all e call fr (evs @ [OnEnd]) ?st0 = on_end e (emit_all e call fr evs ?st0)"
    by (simp add: emit_all_append)
  then have w: "store (emit_all e call fr (evs @ [OnEnd]) ?st0) u =
       Some \<lparr>fr_url = u, fr_meta = meta (emit_all e call fr evs ?st0), updatedAt = Date (now e)\<rparr>"
    using t url by (simp add: on_end_def resolve_def createOrUpdate_def)
  from lr tr d w show ?thesis by (intro conjI)
qed

text \<open>C5, witness: an empty store, two items, then the end of the stream.\<close>

theorem no_watermark_dispatches_all_witness:
  "enableReadTracking (config \<lparr>config = defaultConfig, now = 300, stream_log = False\<rparr>) \<and>
   findOne Map.empty (JStr ''u'') = None \<and>
   trace (emit_all \<lparr>config = defaultConfig, now = 300, stream_log = False\<rparr>
      (\<lambda>h it i w. Completed (w @ [h])) (process None (7::nat) constructor)
      [OnMeta \<lparr>meta_date = Date 100\<rparr>,
       OnReadable [\<lparr>item_guid = ''a'', item_date = Date 50\<rparr>, \<lparr>item_guid = ''b'', item_date = Date 150\<rparr>]]
      (priv_createParser \<lparr>config = defaultConfig, now = 300, stream_log = False\<rparr>
         (JStr ''u'') (JStr ''n'') Map.empty))
     = [Ran (\<lparr>item_guid = ''a'', item_date = Date 50\<rparr>, JStr ''n'')
          (priv_processItem (\<lambda>h it i w. Completed (w @ [h])) (process None (7::nat) constructor)
             (\<lparr>item_guid = ''a'', item_date = Date 50\<rparr>, JStr ''n'')),
        Ran (\<lparr>item_guid = ''b'', item_date = Date 150\<rparr>, JStr ''n'')
          (priv_processItem (\<lambda>h it i w. Completed (w @ [h])) (process None (7::nat) constructor)
             (\<lparr>item_guid = ''b'', item_date = Date 150\<rparr>, JStr ''n''))] \<and>
   store (emit_all \<lparr>config = defaultConfig, now = 300, stream_log = False\<rparr>
      (\<lambda>h it i w. Completed (w @ [h])) (process None (7::nat) constructor)
      ([OnMeta \<lparr>meta_date = Date 100\<rparr>,
        OnReadable [\<lparr>item_guid = ''a'', item_date = Date 50\<rparr>, \<lparr>item_guid = ''b'', item_date = Date 150\<rparr>]]
       @ [OnEnd])
      (priv_createParser \<lparr>config = defaultConfig, now = 300, stream_log = False\<rparr>
         (JStr ''u'') (JStr ''n'') Map.empty)) (JStr ''u'')
     = Some \<lparr>fr_url = JStr ''u'', fr_meta = Some \<lparr>meta_date = Date 100\<rparr>, updatedAt = Date 300\<rparr>"
  using no_watermark_dispatches_all
    [of "\<lparr>config = defaultConfig, now = 300, stream_log = False\<rparr>" Map.empty "JStr ''u''" "JStr ''n''"
        "\<lambda>h it i w. Completed (w @ [h])" "process None (7::nat) constructor"
        "[OnMeta \<lparr>meta_date = Date 100\<rparr>,
          OnReadable [\<lparr>item_guid = ''a'', item_date = Date 50\<rparr>, \<lparr>item_guid = ''b'', item_date = Date 150\<rparr>]]"]
  by (simp add: defaultConfig_def findOne_def priv_createParser_def lookup_lastRead_def on_meta_def
      skip_item_def priv_callOrQueue_def)

subsection \<open>The effective last-read timestamp and the feed-level skip flag\<close>



subsection \<open>The decision of the \<^verbatim>\<open>readable\<close> handler\<close>

text \<open>
  What the source's condition decides for one item: the item is left out exactly
  when read tracking is on, the feed-level flag is \<^emph>\<open>not\<close> set, \<open>lastRead\<close> is a
  date and the item's date is \<^emph>\<open>at or after\<close> it. The debug message of that branch
  reads "Skipping feed item ... because ... is older than ...", and the message of
  the \<^verbatim>\<open>meta\<close> handler reads "Skipping" when the flag is set.
\<close>

lemma skip_item_dates:
  "skip_item st it =
     (readTracking st \<and> \<not> skip st \<and>
      (\<exists>l. lastRead st = Date l \<and>
           (case to_number (item_date it) of None \<Rightarrow> False | Some d \<Rightarrow> l \<le> d)))"
  by (cases "lastRead st") (auto simp: skip_item_def js_ge_def split: option.splits)

lemma readable_decision:
  "dispatched (snd (on_readable e call fr [it] st)) =
     (if skip_item st it then dispatched st else dispatched st @ [(it, feed_ident st)])"
  by (simp add: dispatched_def routed_data_callOrQueue)

text \<open>
  C1 (the code at a failing input). Watermark dated 100, feed metadata dated 200, so
  the feed-level flag stays false; the parser emits an item dated 50 and an item
  dated 150. The claim has the older item skipped and the newer one dispatched. The
  code dispatches the older item and not the newer one, whether the skip branch
  goes on (\<open>stream_log\<close>) or raises.
\<close>

theorem readable_dispatches_older_item_only:
  "lastRead (priv_createParser \<lparr>config = defaultConfig, now = 300, stream_log = True\<rparr> (JStr ''u'') (JStr ''n'')
      [JStr ''u'' \<mapsto> \<lparr>fr_url = JStr ''u'', fr_meta = Some \<lparr>meta_date = Date 100\<rparr>, updatedAt = Date 120\<rparr>]
      :: ('h, 'w) pstate)
     = Date 100 \<and>
   \<not> skip (emit_all \<lparr>config = defaultConfig, now = 300, stream_log = True\<rparr> call fr
      [OnMeta \<lparr>meta_date = Date 200\<rparr>]
      (priv_createParser \<lparr>config = defaultConfig, now = 300, stream_log = True\<rparr> (JStr ''u'') (JStr ''n'')
        [JStr ''u'' \<mapsto> \<lparr>fr_url = JStr ''u'', fr_meta = Some \<lparr>meta_date = Date 100\<rparr>, updatedAt = Date 120\<rparr>])) \<and>
   dispatched (emit_all \<lparr>config = defaultConfig, now = 300, stream_log = True\<rparr> call fr
      [OnMeta \<lparr>meta_date = Date 200\<rparr>,
       OnReadable [\<lparr>item_guid = ''old'', item_date = Date 50\<rparr>, \<lparr>item_guid = ''new'', item_date = Date 150\<rparr>]]
      (priv_createParser \<lparr>config = defaultConfig, now = 300, stream_log = True\<rparr> (JStr ''u'') (JStr ''n'')
        [JStr ''u'' \<mapsto> \<lparr>fr_url = JStr ''u'', fr_meta = Some \<lparr>meta_date = Date 100\<rparr>, updatedAt = Date 120\<rparr>]))
     = [(\<lparr>item_guid = ''old'', item_date = Date 50\<rparr>, JStr ''n'')] \<and>
   dispatched (emit_all \<lparr>config = defaultConfig, now = 300, stream_log = False\<rparr> call fr
      [OnMeta \<lparr>meta_date = Date 200\<rparr>,
       OnReadable [\<lparr>item_guid = ''old'', item_date = Date 50\<rparr>, \<lparr>item_guid = ''new'', item_date = Date 150\<rparr>]]
      (priv_createParser \<lparr>config = defaultConfig, now = 300, stream_log = False\<rparr> (JStr ''u'') (JStr ''n'')
        [JStr ''u'' \<mapsto> \<lparr>fr_url = JStr ''u'', fr_meta = Some \<lparr>meta_date = Date 100\<rparr>, updatedAt = Date 120\<rparr>]))
     = [(\<lparr>item_guid = ''old'', item_date = Date 50\<rparr>, JStr ''n'')]"
  by (simp add: priv_createParser_def defaultConfig_def lookup_lastRead_def findOne_def on_meta_def
      js_ge_def skip_item_def dispatched_def priv_callOrQueue_def on_error_def reject_def)

text \<open>
  C2 (the code at a failing input). Watermark dated 100 and feed metadata dated 100:
  the feed-level flag is set. The claim has no item dispatched. The code dispatches
  both items; at the end of the stream it writes the record of the URL with the
  fetched metadata, as the claim says.
\<close>

theorem unchanged_feed_dispatches_every_item:
  "skip (emit_all \<lparr>config = defaultConfig, now = 300, stream_log = False\<rparr> call fr
      [OnMeta \<lparr>meta_date = Date 100\<rparr>]
      (priv_createParser \<lparr>config = defaultConfig, now = 300, stream_log = False\<rparr> (JStr ''u'') (JStr ''n'')
        [JStr ''u'' \<mapsto> \<lparr>fr_url = JStr ''u'', fr_meta = Some \<lparr>meta_date = Date 100\<rparr>, updatedAt = Date 120\<rparr>])) \<and>
   dispatched (emit_all \<lparr>config = defaultConfig, now = 300, stream_log = False\<rparr> call fr
      [OnMeta \<lparr>meta_date = Date 100\<rparr>,
       OnReadable [\<lparr>item_guid = ''old'', item_date = Date 50\<rparr>, \<lparr>item_guid = ''new'', item_date = Date 150\<rparr>],
       OnEnd]
      (priv_createParser \<lparr>config = defaultConfig, now = 300, stream_log = False\<rparr> (JStr ''u'') (JStr ''n'')
        [JStr ''u'' \<mapsto> \<lparr>fr_url = JStr ''u'', fr_meta = Some \<lparr>meta_date = Date 100\<rparr>, updatedAt = Date 120\<rparr>]))
     = [(\<lparr>item_guid = ''old'', item_date = Date 50\<rparr>, JStr ''n''),
        (\<lparr>item_guid = ''new'', item_date = Date 150\<rparr>, JStr ''n'')] \<and>
   store (emit_all \<lparr>config = defaultConfig, now = 300, stream_log = False\<rparr> call fr
      [OnMeta \<lparr>meta_date = Date 100\<rparr>,
       OnReadable [\<lparr>item_guid = ''old'', item_date = Date 50\<rparr>, \<lparr>item_guid = ''new'', item_date = Date 150\<rparr>],
       OnEnd]
      (priv_createParser \<lparr>config = defaultConfig, now = 300, stream_log = False\<rparr> (JStr ''u'') (JStr ''n'')
        [JStr ''u'' \<mapsto> \<lparr>fr_url = JStr ''u'', fr_meta = Some \<lparr>meta_date = Date 100\<rparr>, updatedAt = Date 120\<rparr>]))
      (JStr ''u'')
     = Some \<lparr>fr_url = JStr ''u'', fr_meta = Some \<lparr>meta_date = Date 100\<rparr>, updatedAt = Date 300\<rparr>"
  by (simp add: priv_createParser_def defaultConfig_def lookup_lastRead_def findOne_def on_meta_def
      js_ge_def skip_item_def dispatched_def priv_callOrQueue_def on_end_def resolve_def
      createOrUpdate_def)

section \<open>Properties of the fetch stages\<close>

text \<open>
  C3 (the code on an unregistered ident). \<^verbatim>\<open>this._feeds[ident]\<close> is \<^verbatim>\<open>undefined\<close>, and
  \<^verbatim>\<open>_fetch\<close> passes it on. With queues disabled \<^verbatim>\<open>_fetchFeed\<close> is entered at
  once and its parameter destructuring raises a TypeError, which leaves \<^verbatim>\<open>_fetch\<close>
  and \<^verbatim>\<open>fetch\<close> as an exception: no parser is created and nothing is dispatched.
  With queues enabled the \<^verbatim>\<open>undefined\<close> payload is submitted as a task, and the
  worker \<^verbatim>\<open>_fetchFeed\<close> raises the same error on it.
\<close>

theorem fetch_unregistered_throws:
  "truthy ident \<Longrightarrow> map_of (feeds fr) (prop_key ident) = None \<Longrightarrow>
     (\<not> enableQueues (config e) \<longrightarrow> fetch e call net s fr ident = Ran ident (Inl TypeError)) \<and>
     (enableQueues (config e) \<longrightarrow>
        fetch e call net s fr ident = Task ''feedreader-fetch'' ident \<and>
        priv_fetch e call net s fr ident = Inr [Task ''feedreader-fetchFeed'' None]) \<and>
     priv_fetchFeed e call fr net s None = Inl TypeError"
  by (simp add: fetch_def priv_fetch_def priv_callOrQueue_def priv_fetchFeed_def)

text \<open>C3, the failing input: a reader with one feed and one handler, asked to fetch
  an ident that was never registered.\<close>

theorem fetch_unregistered_throws_witness:
  "fetch \<lparr>config = defaultConfig, now = 300, stream_log = False\<rparr> (\<lambda>h it i w. Completed w)
     (\<lambda>u. [Response 200, Body OnEnd]) Map.empty
     (process None (0::nat) (feed ''news'' ''http://example.com/feed.xml'' Map.empty constructor))
     (JStr ''nope'')
   = (Ran (JStr ''nope'') (Inl TypeError)
        :: (jsval, error + (nat, unit) fetched list) routed)"
  using fetch_unregistered_throws
    [of "JStr ''nope''" "process None (0::nat) (feed ''news'' ''http://example.com/feed.xml'' Map.empty constructor)"
        "\<lparr>config = defaultConfig, now = 300, stream_log = False\<rparr>" "\<lambda>h it i (w::unit). Completed w"
        "\<lambda>u. [Response 200, Body OnEnd]" Map.empty]
  by (simp add: defaultConfig_def process_def feed_def constructor_def)

subsection \<open>Failures of a fetch\<close>

text \<open>A settled promise stays as it is. The store changes on the parser's
  \<^verbatim>\<open>end\<close> event only, and while the response is not piped into the parser nothing
  but the promise changes.\<close>

lemma parser_emit_settled:
  "promise st \<noteq> Pending \<Longrightarrow> promise (parser_emit e call fr ev st) = promise st"
proof (cases ev)
  case (OnReadable its)
  assume p: "promise st \<noteq> Pending"
  obtain r st' where res: "on_readable e call fr its st = (r, st')"
    by (cases "on_readable e call fr its st") auto
  with on_readable_frame[of e call fr its st] OnReadable p show ?thesis
    by (cases r) (simp_all add: on_error_def reject_def)
qed (simp_all add: on_meta_def on_error_def on_end_def reject_def resolve_def Let_def)

lemma fetch_emit_settled:
  "promise st \<noteq> Pending \<Longrightarrow> promise (fetch_emit e call fr ev st) = promise st"
  by (cases ev) (simp_all add: parser_emit_settled reject_def)

lemma fetch_all_settled:
  "promise st \<noteq> Pending \<Longrightarrow> promise (fetch_all e call fr evs st) = promise st"
  by (induction evs arbitrary: st) (simp_all add: fetch_emit_settled)

lemma parser_emit_store:
  "ev \<noteq> OnEnd \<Longrightarrow> store (parser_emit e call fr ev st) = store st"
proof (cases ev)
  case (OnReadable its)
  obtain r st' where res: "on_readable e call fr its st = (r, st')"
    by (cases "on_readable e call fr its st") auto
  with on_readable_frame[of e call fr its st] OnReadable show ?thesis
    by (cases r) (simp_all add: on_error_def reject_def)
qed (simp_all add: on_meta_def on_error_def reject_def Let_def)

lemma fetch_emit_store:
  "ev \<noteq> Body OnEnd \<Longrightarrow> store (fetch_emit e call fr ev st) = store st"
  by (cases ev) (auto simp: parser_emit_store reject_def)

lemma fetch_all_store:
  "Body OnEnd \<notin> set evs \<Longrightarrow> store (fetch_all e call fr evs st) = store st"
  by (induction evs arbitrary: st) (auto simp: fetch_emit_store)

lemma fetch_emit_unpiped:
  "\<not> piped st \<Longrightarrow> ev \<noteq> Response 200 \<Longrightarrow>
     fetch_emit e call fr ev st = st\<lparr>promise := promise (fetch_emit e call fr ev st)\<rparr>"
  by (cases ev) (auto simp: reject_def)

lemma fetch_all_unpiped:
  "\<not> piped st \<Longrightarrow> Response 200 \<notin> set evs \<Longrightarrow>
     fetch_all e call fr evs st = st\<lparr>promise := promise (fetch_all e call fr evs st)\<rparr>"
proof (induction evs arbitrary: st)
  case Nil
  then show ?case by simp
next
  case (Cons ev evs)
  let ?st = "fetch_emit e call fr ev st"
  from Cons.prems have one: "?st = st\<lparr>promise := promise ?st\<rparr>"
    by (intro fetch_emit_unpiped) auto
  have "piped ?st = piped (st\<lparr>promise := promise ?st\<rparr>)" using one by simp
  then have "\<not> piped ?st" using Cons.prems(1) by simp
  from Cons.IH[OF this] Cons.prems(2)
  have "fetch_all e call fr evs ?st = ?st\<lparr>promise := promise (fetch_all e call fr evs ?st)\<rparr>" by simp
  also have "\<dots> = st\<lparr>promise := promise (fetch_all e call fr evs ?st)\<rparr>"
    by (subst one) simp
  finally show ?case by simp
qed

text \<open>
  The failure paths of a fetch, at any state whose promise is pending: a transport
  error rejects the promise with that error; a response with a status other than
  200 rejects it with the error \<^verbatim>\<open>Bad status code\<close>, and when that response is what
  the request delivers, the whole state stays as it was but for the promise
  (nothing reaches the parser, nothing is dispatched, no record is written); a
  parser error rejects it with that error. None of the three handlers writes the
  store, and no later event changes the rejected promise. The store is written on
  the \<^verbatim>\<open>end\<close> event only: a run without it leaves the store alone.
\<close>

theorem fetchFeed_failure:
  assumes "promise st = Pending"
  shows "promise (fetch_all e call fr (ReqError err # rest) st) = Rejected err \<and>
         store (fetch_emit e call fr (ReqError err) st) = store st \<and>
         (code \<noteq> 200 \<longrightarrow>
            promise (fetch_all e call fr (Response code # rest) st) = Rejected (Error ''Bad status code'')) \<and>
         (code \<noteq> 200 \<and> \<not> piped st \<and> Response 200 \<notin> set rest \<longrightarrow>
            fetch_all e call fr (Response code # rest) st
              = st\<lparr>promise := Rejected (Error ''Bad status code'')\<rparr>) \<and>
         (piped st \<longrightarrow>
            promise (fetch_all e call fr (Body (OnError err) # rest) st) = Rejected err \<and>
            store (fetch_emit e call fr (Body (OnError err)) st) = store st) \<and>
         (Body OnEnd \<notin> set evs \<longrightarrow> store (fetch_all e call fr evs st) = store st)"
proof -
  have c1: "promise (fetch_all e call fr (ReqError err # rest) st) = Rejected err"
    using assms fetch_all_settled[of "reject err st" e call fr rest] by (simp add: reject_def)
  have c2: "store (fetch_emit e call fr (ReqError err) st) = store st"
    by (simp add: reject_def)
  have c3: "code \<noteq> 200 \<longrightarrow>
      promise (fetch_all e call fr (Response code # rest) st) = Rejected (Error ''Bad status code'')"
    using assms fetch_all_settled[of "reject (Error ''Bad status code'') st" e call fr rest]
    by (simp add: reject_def)
  have c4: "code \<noteq> 200 \<and> \<not> piped st \<and> Response 200 \<notin> set rest \<longrightarrow>
      fetch_all e call fr (Response code # rest) st = st\<lparr>promise := Rejected (Error ''Bad status code'')\<rparr>"
  proof
    assume h: "code \<noteq> 200 \<and> \<not> piped st \<and> Response 200 \<notin> set rest"
    then have "Response 200 \<notin> set (Response code # rest)" by simp
    from fetch_all_unpiped[OF _ this, of st e call fr] h
    have "fetch_all e call fr (Response code # rest) st =
            st\<lparr>promise := promise (fetch_all e call fr (Response code # rest) st)\<rparr>" by simp
    with c3 h show "fetch_all e call fr (Response code # rest) st =
        st\<lparr>promise := Rejected (Error ''Bad status code'')\<rparr>" by simp
  qed
  have c5: "piped st \<longrightarrow>
      promise (fetch_all e call fr (Body (OnError err) # rest) st) = Rejected err \<and>
      store (fetch_emit e call fr (Body (OnError err)) st) = store st"
    using assms fetch_all_settled[of "reject err st" e call fr rest]
    by (simp add: reject_def on_error_def)
  have c6: "Body OnEnd \<notin> set evs \<longrightarrow> store (fetch_all e call fr evs st) = store st"
    by (simp add: fetch_all_store)
  from c1 c2 c3 c4 c5 c6 show ?thesis by (intro conjI)
qed

text \<open>An instance: a 404 response; whatever body arrives afterwards, the fetch ends in
  the state the parsing context was created in, its promise rejected.\<close>

theorem fetchFeed_failure_witness:
  "priv_fetchFeed \<lparr>config = defaultConfig, now = 300, stream_log = False\<rparr>
     (\<lambda>h it i w. Completed w) (process None (0::nat) constructor)
     (\<lambda>u. [Response 404, Body (OnMeta \<lparr>meta_date = Date 200\<rparr>),
            Body (OnReadable [\<lparr>item_guid = ''a'', item_date = Date 50\<rparr>]), Body OnEnd])
     Map.empty (Some [''url'' \<mapsto> JStr ''u'', ''ident'' \<mapsto> JStr ''n''])
   = Inr ((priv_createParser \<lparr>config = defaultConfig, now = 300, stream_log = False\<rparr>
             (JStr ''u'') (JStr ''n'') Map.empty :: (nat, unit) pstate)
            \<lparr>promise := Rejected (Error ''Bad status code'')\<rparr>)"
  using fetchFeed_failure
    [where st = "priv_createParser \<lparr>config = defaultConfig, now = 300, stream_log = False\<rparr>
           (JStr ''u'') (JStr ''n'') Map.empty :: (nat, unit) pstate"
       and e = "\<lparr>config = defaultConfig, now = 300, stream_log = False\<rparr>"
       and call = "\<lambda>h it i w. Completed w" and fr = "process None (0::nat) constructor"
       and err = TypeError
       and rest = "[Body (OnMeta \<lparr>meta_date = Date 200\<rparr>),
          Body (OnReadable [\<lparr>item_guid = ''a'', item_date = Date 50\<rparr>]), Body OnEnd]"
       and code = 404 and evs = "[]"]
  by (simp add: priv_fetchFeed_def field_def priv_createParser_def)

text \<open>
  C8 (the code at a failing input). The response has status 200, the parser signals
  an error (the document is not a feed) and the stream ends afterwards. The promise
  is rejected with that error, as the claim says. The claim has the watermark left
  alone; the \<^verbatim>\<open>end\<close> handler, which logs "Finished parsing feed" and does not look
  at the promise, writes the record of the URL, with no metadata in it. The other
  failure paths, the transport error and the status other than 200, leave the store
  alone (\<open>fetchFeed_failure\<close>).
\<close>

theorem fetchFeed_error_then_end_writes_watermark:
  "promise (fetch_all \<lparr>config = defaultConfig, now = 300, stream_log = False\<rparr> call fr
      [Response 200, Body (OnError (Error ''Not a feed'')), Body OnEnd]
      (priv_createParser \<lparr>config = defaultConfig, now = 300, stream_log = False\<rparr>
         (JStr ''u'') (JStr ''n'') Map.empty))
     = Rejected (Error ''Not a feed'') \<and>
   store (priv_createParser \<lparr>config = defaultConfig, now = 300, stream_log = False\<rparr>
         (JStr ''u'') (JStr ''n'') Map.empty :: ('h, 'w) pstate) (JStr ''u'') = None \<and>
   store (fetch_all \<lparr>config = defaultConfig, now = 300, stream_log = False\<rparr> call fr
      [Response 200, Body (OnError (Error ''Not a feed'')), Body OnEnd]
      (priv_createParser \<lparr>config = defaultConfig, now = 300, stream_log = False\<rparr>
         (JStr ''u'') (JStr ''n'') Map.empty)) (JStr ''u'')
     = Some \<lparr>fr_url = JStr ''u'', fr_meta = None, updatedAt = Date 300\<rparr>"
  by (simp add: priv_createParser_def defaultConfig_def lookup_lastRead_def findOne_def
      on_error_def on_end_def reject_def resolve_def createOrUpdate_def)

end
